theory Spec2Isabelle
  imports Complex_Main "HOL-Library.List_Lexorder" "HOL-Library.Product_Lexorder"
    "HOL-Library.Multiset"
begin

section \<open>Food wastage dashboard: the store and its aggregates (app.py)\<close>

text \<open>
  The application is one Streamlit script over two SQLite tables. The model follows the
  script: the tables are lists of rows in storage order, the form handler is a function
  from the store and the submitted widget values to the new store and the messages shown,
  and the dashboard figures are functions of the loaded frame.

  \<^item> A Python \<open>str\<close> is a list of Unicode code points (\<open>nat\<close>), so that
    \<open>str.strip\<close> and string comparison mean what they mean in Python;
    \<open>text_of\<close> turns an ASCII literal into such a list.
  \<^item> \<open>Quantity\<close> (SQLite \<open>REAL\<close>, a Python float) is an exact \<open>real\<close>:
    the rounding of IEEE double addition is not part of the model.
  \<^item> A \<open>datetime.date\<close> is a triple (year, month, day) ordered lexicographically,
    which is the calendar order. The dashboard compares parsed timestamps against
    \<open>today\<close> normalised to midnight, so only the calendar day of a timestamp
    matters to the comparison.
  \<^item> The caches (\<open>st.cache_resource\<close>, \<open>st.cache_data\<close>) are bounded by wall-clock
    time and are not modelled: every load reads the store.
\<close>

subsection \<open>Strings\<close>

type_synonym str = "nat list"

definition text_of :: "string \<Rightarrow> str" where
  "text_of cs = map of_char cs"

text \<open>The code points Python's \<open>str.isspace\<close> accepts, which \<open>str.strip()\<close> removes.\<close>

definition isspace :: "nat \<Rightarrow> bool" where
  "isspace c \<longleftrightarrow>
     (9 \<le> c \<and> c \<le> 13) \<or> (28 \<le> c \<and> c \<le> 32) \<or> c = 133 \<or> c = 160 \<or> c = 5760 \<or>
     (8192 \<le> c \<and> c \<le> 8202) \<or> c = 8232 \<or> c = 8233 \<or> c = 8239 \<or> c = 8287 \<or>
     c = 12288"

definition strip :: "str \<Rightarrow> str" where
  "strip s = rev (dropWhile isspace (rev (dropWhile isspace s)))"

subsection \<open>Dates\<close>

type_synonym date = "nat \<times> nat \<times> nat"

definition year :: "date \<Rightarrow> nat" where
  "year d = fst d"

definition month :: "date \<Rightarrow> nat" where
  "month d = fst (snd d)"

definition day :: "date \<Rightarrow> nat" where
  "day d = snd (snd d)"

definition is_leap :: "nat \<Rightarrow> bool" where
  "is_leap y \<longleftrightarrow> y mod 4 = 0 \<and> (y mod 100 \<noteq> 0 \<or> y mod 400 = 0)"

definition days_in_month :: "nat \<Rightarrow> nat \<Rightarrow> nat" where
  "days_in_month y m =
     (if m = 2 then (if is_leap y then 29 else 28)
      else if m = 4 \<or> m = 6 \<or> m = 9 \<or> m = 11 then 30 else 31)"

text \<open>The invariant of \<open>datetime.date\<close>: MINYEAR = 1, MAXYEAR = 9999.\<close>

definition valid_date :: "date \<Rightarrow> bool" where
  "valid_date d \<longleftrightarrow>
     1 \<le> year d \<and> year d \<le> 9999 \<and> 1 \<le> month d \<and> month d \<le> 12 \<and>
     1 \<le> day d \<and> day d \<le> days_in_month (year d) (month d)"

text \<open>Decimal digits of a number, and \<open>str.zfill\<close>-style padding with \<open>0\<close> (code point 48).\<close>

function dec :: "nat \<Rightarrow> str" where
  "dec n = (if n < 10 then [48 + n] else dec (n div 10) @ [48 + n mod 10])"
  by pat_completeness auto
termination
  by (relation "measure (\<lambda>n. n)") auto

declare dec.simps [simp del]

definition zfill :: "nat \<Rightarrow> str \<Rightarrow> str" where
  "zfill w s = replicate (w - length s) 48 @ s"

text \<open>
  \<open>expiry.strftime("%Y-%m-%d")\<close>; 45 is the hyphen. The year is written with at
  least four digits, as the Python documentation has it; C libraries differ on years
  below 1000, and the theorems about the rendering assume a year from 1000 on.
\<close>

definition strftime :: "date \<Rightarrow> str" where
  "strftime d = zfill 4 (dec (year d)) @ [45] @ zfill 2 (dec (month d)) @ [45] @ zfill 2 (dec (day d))"

subsection \<open>The two tables (create_tables)\<close>

text \<open>
  \<open>id INTEGER PRIMARY KEY AUTOINCREMENT\<close> is the only key of either table; every other
  column is \<open>NOT NULL\<close> and carries no uniqueness constraint. The column
  \<open>Expiry_Date\<close> is text in the store and a parsed date (or NaT) in the dashboard's
  frame, hence the type parameter.
\<close>

record 'd listing =
  food_listings_id :: nat
  Food_ID :: str
  Provider_ID :: str
  Food_Item :: str
  Quantity :: real
  Expiry_Date :: 'd
  Location :: str
  Meal_Type :: str

record provider =
  providers_id :: nat
  Name :: str
  Contact :: str
  City :: str

record db =
  food_listings :: "str listing list"
  providers :: "provider list"

text \<open>
  A storage fault is an input of the environment: the store is either available with its
  contents, or every access to it raises an exception with the given message.
\<close>

datatype storage = Available db | Unavailable str

text \<open>
  AUTOINCREMENT: the new row id is one more than the largest id of the table (the script
  never deletes a row, so the largest id ever used is the largest id stored).
\<close>

definition next_rowid :: "nat list \<Rightarrow> nat" where
  "next_rowid ids = Suc (fold max ids 0)"

text \<open>\<open>INSERT INTO food_listings (...) VALUES (?, ?, ?, ?, ?, ?, ?)\<close>\<close>

definition insert_food_listing ::
  "str listing list \<Rightarrow> str \<times> str \<times> str \<times> real \<times> str \<times> str \<times> str \<Rightarrow> str listing list" where
  "insert_food_listing tbl v =
     (case v of (fid, pid, item, q, e, loc, meal) \<Rightarrow>
        tbl @ [\<lparr>food_listings_id = next_rowid (map food_listings_id tbl),
                 Food_ID = fid, Provider_ID = pid, Food_Item = item, Quantity = q,
                 Expiry_Date = e, Location = loc, Meal_Type = meal\<rparr>])"

text \<open>
  \<open>INSERT OR IGNORE INTO providers (Name, Contact, City) VALUES (?, ?, ?)\<close>: SQLite
  skips the row when it violates a uniqueness constraint of the table. The only such
  constraint of \<open>providers\<close> is the primary key \<open>id\<close>. (The \<open>NOT NULL\<close>
  constraints cannot be violated: the values are Python strings.)
\<close>

definition insert_or_ignore_provider :: "provider list \<Rightarrow> str \<times> str \<times> str \<Rightarrow> provider list" where
  "insert_or_ignore_provider tbl v =
     (case v of (n, c, ci) \<Rightarrow>
        (let row = \<lparr>providers_id = next_rowid (map providers_id tbl),
                      Name = n, Contact = c, City = ci\<rparr>
         in if providers_id row \<in> set (map providers_id tbl) then tbl else tbl @ [row]))"

subsection \<open>Messages shown by the script\<close>

datatype ui =
    St_error str
  | St_code str
  | St_warning str
  | St_info str
  | St_success str
  | St_dataframe "(str \<times> str \<times> str) list"

text \<open>The emoji that start the messages, as code points.\<close>

definition cross_mark :: str where
  "cross_mark = [10060, 32]"

definition warning_sign :: str where
  "warning_sign = [9888, 65039, 32]"

definition check_mark :: str where
  "check_mark = [9989, 32]"

subsection \<open>The form handler (add_food_form)\<close>

datatype meal = Veg | Non_Veg | Vegan

definition meal_str :: "meal \<Rightarrow> str" where
  "meal_str m = (case m of Veg \<Rightarrow> text_of ''Veg'' | Non_Veg \<Rightarrow> text_of ''Non-Veg''
                 | Vegan \<Rightarrow> text_of ''Vegan'')"

text \<open>The values of the widgets when the form is submitted.\<close>

record form =
  food_id :: str
  provider_id :: str
  food_item :: str
  quantity :: real
  expiry :: date
  location :: str
  meal_type :: meal
  provider_name :: str
  provider_contact :: str

text \<open>
  The condition of line 119: \<open>all([...])\<close> over the stripped strings and
  \<open>meal_type\<close> (a string is truthy when it is not empty), and \<open>quantity > 0\<close>.
\<close>

definition inputs_ok :: "form \<Rightarrow> bool" where
  "inputs_ok f \<longleftrightarrow>
     list_all (\<lambda>s. s \<noteq> [])
       [strip (food_id f), strip (provider_id f), strip (food_item f),
        strip (location f), strip (provider_name f), strip (provider_contact f),
        meal_str (meal_type f)]
     \<and> quantity f > 0"

text \<open>
  The body of \<open>if submitted:\<close>. With valid inputs both inserts run and are committed;
  an exception of the store is caught and reported; invalid inputs only show a warning.
\<close>

definition add_food_form :: "storage \<Rightarrow> form \<Rightarrow> storage \<times> ui list" where
  "add_food_form st f =
     (if inputs_ok f then
        (case st of
           Available d \<Rightarrow>
             (Available
                (d\<lparr>food_listings :=
                     insert_food_listing (food_listings d)
                       (strip (food_id f), strip (provider_id f), strip (food_item f),
                        quantity f, strftime (expiry f), strip (location f),
                        meal_str (meal_type f)),
                   providers :=
                     insert_or_ignore_provider (providers d)
                       (strip (provider_name f), strip (provider_contact f),
                        strip (location f))\<rparr>),
              [St_success (check_mark @ text_of ''New food listing added successfully!'')])
         | Unavailable e \<Rightarrow>
             (st, [St_error (cross_mark @ text_of ''Failed to add food listing: '' @ e)]))
      else (st, [St_warning (warning_sign @ text_of ''Please fill all required fields correctly.'')]))"

subsection \<open>Loading (load_food_listings, load_providers_by_city)\<close>

text \<open>
  \<open>st.stop()\<close> ends the run of the script; a function that calls it does not return.
\<close>

datatype 'a outcome = Returned 'a | Stopped

definition load_food_listings :: "storage \<Rightarrow> ui list \<times> str listing list outcome" where
  "load_food_listings st =
     (case st of
        Available d \<Rightarrow> ([], Returned (food_listings d))
      | Unavailable e \<Rightarrow>
          ([St_error (cross_mark @ text_of ''Failed to load food listings.''), St_code e],
           Stopped))"

text \<open>
  \<open>SELECT Name, Contact, City FROM providers WHERE City = ?\<close>; the \<open>except\<close>
  branch returns \<open>pd.DataFrame()\<close>, a frame without rows.
\<close>

definition load_providers_by_city ::
  "storage \<Rightarrow> str \<Rightarrow> ui list \<times> (str \<times> str \<times> str) list outcome" where
  "load_providers_by_city st city =
     (case st of
        Available d \<Rightarrow>
          ([], Returned (map (\<lambda>p. (Name p, Contact p, City p))
                          (filter (\<lambda>p. City p = city) (providers d))))
      | Unavailable e \<Rightarrow>
          ([St_error (cross_mark @ text_of ''Error fetching contacts.''), St_code e],
           Returned []))"

text \<open>The button "Show Contacts in Selected City" (lines 92 to 97).\<close>

definition show_contacts :: "storage \<Rightarrow> str \<Rightarrow> ui list \<times> unit outcome" where
  "show_contacts st city =
     (case load_providers_by_city st city of
        (msgs, Stopped) \<Rightarrow> (msgs, Stopped)
      | (msgs, Returned contact_df) \<Rightarrow>
          (if contact_df = []
           then msgs @ [St_warning (warning_sign @ text_of ''No providers found in this city.'')]
           else msgs @ [St_dataframe contact_df],
           Returned ()))"

subsection \<open>The dashboard's frame (tab 2, lines 159 to 164)\<close>

definition is_digit :: "nat \<Rightarrow> bool" where
  "is_digit c \<longleftrightarrow> 48 \<le> c \<and> c \<le> 57"

definition digit_val :: "nat \<Rightarrow> nat" where
  "digit_val c = c - 48"

text \<open>
  \<open>pd.to_datetime(..., errors='coerce')\<close> on one cell: the date, or NaT (\<open>None\<close>).
  The model reads the format the application itself writes, \<open>YYYY-MM-DD\<close>, for the
  years every pandas version can represent as a timestamp (1678 to 2261). What pandas
  makes of any other text is not modelled (the model answers NaT); apart from the worked
  example, the theorems below are stated for frames with arbitrary parsed columns and do
  not depend on this function.
\<close>

definition to_datetime :: "str \<Rightarrow> date option" where
  "to_datetime s =
     (case s of
        [y1, y2, y3, y4, h1, m1, m2, h2, d1, d2] \<Rightarrow>
          (if list_all is_digit [y1, y2, y3, y4, m1, m2, d1, d2] \<and> h1 = 45 \<and> h2 = 45 then
             (let d = (1000 * digit_val y1 + 100 * digit_val y2 + 10 * digit_val y3 + digit_val y4,
                       10 * digit_val m1 + digit_val m2,
                       10 * digit_val d1 + digit_val d2)
              in if valid_date d \<and> 1678 \<le> year d \<and> year d \<le> 2261 then Some d else None)
           else None)
      | _ \<Rightarrow> None)"

text \<open>Line 159: the column \<open>Expiry_Date\<close> is replaced by its parsed values.\<close>

definition coerce_expiry :: "str listing list \<Rightarrow> date option listing list" where
  "coerce_expiry df =
     map (\<lambda>r. \<lparr>food_listings_id = food_listings_id r, Food_ID = Food_ID r,
                Provider_ID = Provider_ID r, Food_Item = Food_Item r, Quantity = Quantity r,
                Expiry_Date = to_datetime (Expiry_Date r), Location = Location r,
                Meal_Type = Meal_Type r\<rparr>) df"

text \<open>
  Lines 163 and 164: \<open>fillna('Unknown').replace('', 'Unknown')\<close>. The columns are
  \<open>NOT NULL\<close>, so only the empty string is replaced.
\<close>

definition replace_empty :: "str \<Rightarrow> str" where
  "replace_empty s = (if s = [] then text_of ''Unknown'' else s)"

definition clean :: "'d listing list \<Rightarrow> 'd listing list" where
  "clean df =
     map (\<lambda>r. r\<lparr>Food_Item := replace_empty (Food_Item r),
                 Meal_Type := replace_empty (Meal_Type r)\<rparr>) df"

definition dashboard_frame :: "str listing list \<Rightarrow> date option listing list" where
  "dashboard_frame df = clean (coerce_expiry df)"

subsection \<open>The figures of the dashboard\<close>

text \<open>
  The expressions of tab 2, as functions of the frame and of \<open>today\<close>. The script
  evaluates them only when the frame has a row; the functions are defined, and the
  theorems hold, for the empty frame as well.
\<close>

text \<open>\<open>df['Expiry_Date'] < today\<close>: a comparison with NaT is False.\<close>

definition before :: "date option \<Rightarrow> date \<Rightarrow> bool" where
  "before e today = (case e of None \<Rightarrow> False | Some d \<Rightarrow> d < today)"

definition total_listings :: "'d listing list \<Rightarrow> nat" where
  "total_listings df = length df"

definition total_quantity :: "'d listing list \<Rightarrow> real" where
  "total_quantity df = sum_list (map Quantity df)"

definition expired_items :: "date \<Rightarrow> date option listing list \<Rightarrow> date option listing list" where
  "expired_items today df = filter (\<lambda>r. before (Expiry_Date r) today) df"

definition num_expired :: "date \<Rightarrow> date option listing list \<Rightarrow> nat" where
  "num_expired today df = length (expired_items today df)"

text \<open>
  \<open>df.groupby(key)["Quantity"].sum()\<close>: one entry per distinct key, the keys in
  ascending order (\<open>groupby\<close> sorts them), each with the sum of its rows. The key
  columns are \<open>NOT NULL\<close>, so no row is dropped for a missing key.
\<close>

definition groupby_sum :: "('d listing \<Rightarrow> 'k::linorder) \<Rightarrow> 'd listing list \<Rightarrow> ('k \<times> real) list" where
  "groupby_sum key df =
     map (\<lambda>k. (k, sum_list (map Quantity (filter (\<lambda>r. key r = k) df))))
       (sort (remdups (map key df)))"


text \<open>
  \<open>sort_values(ascending=False)\<close>. pandas sorts descending by reversing the entries,
  sorting ascending and reversing the result. The model sorts with a stable insertion
  sort, which is what the default \<open>quicksort\<close> of NumPy does on short arrays; on
  longer ones NumPy promises no order among equal values.
\<close>

definition sort_values_desc :: "('k \<times> 'v::linorder) list \<Rightarrow> ('k \<times> 'v) list" where
  "sort_values_desc xs = rev (sort_key snd (rev xs))"

definition head :: "nat \<Rightarrow> 'a list \<Rightarrow> 'a list" where
  "head n xs = take n xs"

text \<open>Line 211 with the number of entries as a parameter; the script asks for five.\<close>

definition top_food_items :: "nat \<Rightarrow> 'd listing list \<Rightarrow> (str \<times> real) list" where
  "top_food_items n df = head n (sort_values_desc (groupby_sum Food_Item df))"


text \<open>
  \<open>value_counts()\<close>: the distinct values in the order they first occur, each with the
  number of its occurrences, sorted by descending count.
\<close>

definition first_seen :: "'a list \<Rightarrow> 'a list" where
  "first_seen xs = rev (remdups (rev xs))"

definition value_counts :: "'a list \<Rightarrow> ('a \<times> nat) list" where
  "value_counts xs = sort_values_desc (map (\<lambda>v. (v, count_list xs v)) (first_seen xs))"

text \<open>Lines 222 and 223: the two buckets of the pie chart.\<close>

definition expiry_status :: "date \<Rightarrow> date option listing list \<Rightarrow> (str \<times> nat) list" where
  "expiry_status today df =
     map (\<lambda>(v, n). (if v then text_of ''Expired'' else text_of ''Not Expired'', n))
       (value_counts (map (\<lambda>r. before (Expiry_Date r) today) df))"

text \<open>The count the chart shows under a label (none when the label is absent).\<close>

definition bucket :: "(str \<times> nat) list \<Rightarrow> str \<Rightarrow> nat" where
  "bucket status label = (case map_of status label of None \<Rightarrow> 0 | Some n \<Rightarrow> n)"

subsection \<open>Notions used to state the properties\<close>

text \<open>A stored string is trimmed: not empty, no white space at either end.\<close>

definition trimmed :: "str \<Rightarrow> bool" where
  "trimmed s \<longleftrightarrow> s \<noteq> [] \<and> \<not> isspace (hd s) \<and> \<not> isspace (last s)"

text \<open>The shape \<open>YYYY-MM-DD\<close>: eight digits and two hyphens.\<close>

definition iso_format :: "str \<Rightarrow> bool" where
  "iso_format s =
     (case s of
        [y1, y2, y3, y4, h1, m1, m2, h2, d1, d2] \<Rightarrow>
          list_all is_digit [y1, y2, y3, y4, m1, m2, d1, d2] \<and> h1 = 45 \<and> h2 = 45
      | _ \<Rightarrow> False)"

text \<open>The provider tuple a submission writes, and the number of stored rows equal to a tuple.\<close>

definition provider_tuple :: "form \<Rightarrow> str \<times> str \<times> str" where
  "provider_tuple f = (strip (provider_name f), strip (provider_contact f), strip (location f))"

definition matching_providers :: "storage \<Rightarrow> str \<times> str \<times> str \<Rightarrow> nat" where
  "matching_providers st t =
     (case st of
        Available d \<Rightarrow> length (filter (\<lambda>p. (Name p, Contact p, City p) = t) (providers d))
      | Unavailable e \<Rightarrow> 0)"

subsection \<open>Sample inputs\<close>

definition empty_db :: db where
  "empty_db = \<lparr>food_listings = [], providers = []\<rparr>"

definition sample_form :: form where
  "sample_form =
     \<lparr>food_id = text_of ''F1'', provider_id = text_of ''P1'', food_item = text_of '' Bread '',
      quantity = 3, expiry = (2099, 1, 1), location = text_of ''Pune'', meal_type = Veg,
      provider_name = text_of ''Asha '', provider_contact = text_of ''555''\<rparr>"

definition sample_row :: "str \<Rightarrow> real \<Rightarrow> str \<Rightarrow> str listing" where
  "sample_row item q e =
     \<lparr>food_listings_id = 1, Food_ID = text_of ''F1'', Provider_ID = text_of ''P1'',
      Food_Item = item, Quantity = q, Expiry_Date = e, Location = text_of ''Pune'',
      Meal_Type = text_of ''Veg''\<rparr>"


subsection \<open>Facts about strings, row ids and the inserts\<close>

lemma strip_no_leading_space: "strip s \<noteq> [] \<Longrightarrow> \<not> isspace (hd (strip s))"
proof -
  assume ne: "strip s \<noteq> []"
  define t where "t = dropWhile isspace s"
  have st: "strip s = rev (dropWhile isspace (rev t))"
    by (simp add: strip_def t_def)
  with ne have tne: "t \<noteq> []" by auto
  then have h: "\<not> isspace (hd t)"
    unfolding t_def by (metis hd_dropWhile)
  obtain u where u: "t = strip s @ u"
    using st by (metis rev_append rev_rev_ident takeWhile_dropWhile_id)
  with ne have "hd t = hd (strip s)" by simp
  with h show ?thesis by simp
qed

lemma strip_no_trailing_space: "strip s \<noteq> [] \<Longrightarrow> \<not> isspace (last (strip s))"
proof -
  assume ne: "strip s \<noteq> []"
  define r where "r = dropWhile isspace (rev (dropWhile isspace s))"
  have st: "strip s = rev r" by (simp add: strip_def r_def)
  with ne have "r \<noteq> []" by auto
  then have "\<not> isspace (hd r)" unfolding r_def by (metis hd_dropWhile)
  moreover have "last (strip s) = hd r" using st \<open>r \<noteq> []\<close> by (simp add: last_rev)
  ultimately show ?thesis by simp
qed

lemma strip_decomposition:
  "\<exists>l r. s = l @ strip s @ r \<and> list_all isspace l \<and> list_all isspace r"
proof -
  define l where "l = takeWhile isspace s"
  define t where "t = dropWhile isspace s"
  define r where "r = rev (takeWhile isspace (rev t))"
  have "s = l @ t" by (simp add: l_def t_def)
  moreover have "rev t = takeWhile isspace (rev t) @ dropWhile isspace (rev t)" by simp
  then have "t = strip s @ r"
    by (metis r_def rev_append rev_rev_ident strip_def t_def)
  moreover have "list_all isspace l"
    unfolding l_def list_all_iff by (auto dest: set_takeWhileD)
  moreover have "list_all isspace r"
    unfolding r_def list_all_iff by (auto dest: set_takeWhileD)
  ultimately show ?thesis by auto
qed

lemma fold_max_ge: "x \<in> set ids \<Longrightarrow> x \<le> fold max ids (a::nat)"
proof (induction ids arbitrary: a)
  case Nil
  then show ?case by simp
next
  case (Cons y ys)
  have mono: "b \<le> fold max ys b" for b :: nat
    by (induction ys arbitrary: b) (auto intro: order_trans [OF max.cobounded2])
  from Cons show ?case
    by (auto intro: order_trans [OF max.cobounded1 mono])
qed

lemma next_rowid_fresh: "next_rowid ids \<notin> set ids"
  using fold_max_ge [of "next_rowid ids" ids 0] by (auto simp: next_rowid_def)

lemma insert_or_ignore_provider_appends:
  "insert_or_ignore_provider tbl (n, c, ci) =
     tbl @ [\<lparr>providers_id = next_rowid (map providers_id tbl), Name = n, Contact = c, City = ci\<rparr>]"
  using next_rowid_fresh [of "map providers_id tbl"]
  by (simp add: insert_or_ignore_provider_def Let_def)


lemma trimmed_strip: "strip s \<noteq> [] \<Longrightarrow> trimmed (strip s)"
  by (simp add: trimmed_def strip_no_leading_space strip_no_trailing_space)

lemma add_food_form_ok:
  "inputs_ok f \<Longrightarrow>
   add_food_form (Available d) f =
     (Available
        \<lparr>food_listings = food_listings d @
           [\<lparr>food_listings_id = next_rowid (map food_listings_id (food_listings d)),
             Food_ID = strip (food_id f), Provider_ID = strip (provider_id f),
             Food_Item = strip (food_item f), Quantity = quantity f,
             Expiry_Date = strftime (expiry f), Location = strip (location f),
             Meal_Type = meal_str (meal_type f)\<rparr>],
         providers = providers d @
           [\<lparr>providers_id = next_rowid (map providers_id (providers d)),
             Name = strip (provider_name f), Contact = strip (provider_contact f),
             City = strip (location f)\<rparr>]\<rparr>,
      [St_success (check_mark @ text_of ''New food listing added successfully!'')])"
  by (simp add: add_food_form_def insert_food_listing_def insert_or_ignore_provider_appends)

lemma add_food_form_rejects:
  "\<not> inputs_ok f \<Longrightarrow>
   add_food_form st f =
     (st, [St_warning (warning_sign @ text_of ''Please fill all required fields correctly.'')])"
  by (simp add: add_food_form_def)

text \<open>Every accepted submission adds a provider row, whether or not an equal one is stored.\<close>

lemma add_food_form_provider_count:
  "inputs_ok f \<Longrightarrow>
   matching_providers (fst (add_food_form (Available d) f)) (provider_tuple f) =
     Suc (matching_providers (Available d) (provider_tuple f))"
  by (simp add: add_food_form_ok matching_providers_def provider_tuple_def)

lemma sample_form_ok: "inputs_ok sample_form"
  by (simp add: inputs_ok_def sample_form_def strip_def text_of_def isspace_def meal_str_def)

subsection \<open>Facts about the rendering of dates\<close>

lemma dec_1: "n < 10 \<Longrightarrow> dec n = [48 + n]"
  by (simp add: dec.simps)

lemma dec_2: "10 \<le> n \<Longrightarrow> n < 100 \<Longrightarrow> dec n = [48 + n div 10, 48 + n mod 10]"
  by (subst dec.simps) (simp add: dec_1)

lemma dec_3:
  "100 \<le> n \<Longrightarrow> n < 1000 \<Longrightarrow> dec n = [48 + n div 100, 48 + n div 10 mod 10, 48 + n mod 10]"
  by (subst dec.simps) (simp add: dec_2 div_mult2_eq [symmetric])

lemma dec_4:
  "1000 \<le> n \<Longrightarrow> n < 10000 \<Longrightarrow>
   dec n = [48 + n div 1000, 48 + n div 100 mod 10, 48 + n div 10 mod 10, 48 + n mod 10]"
  by (subst dec.simps) (simp add: dec_3 div_mult2_eq [symmetric])

lemma zfill2_dec: "n < 100 \<Longrightarrow> zfill 2 (dec n) = [48 + n div 10, 48 + n mod 10]"
  by (cases "n < 10") (simp_all add: zfill_def dec_1 dec_2)

lemma zfill4_dec:
  "1000 \<le> n \<Longrightarrow> n < 10000 \<Longrightarrow>
   zfill 4 (dec n) = [48 + n div 1000, 48 + n div 100 mod 10, 48 + n div 10 mod 10, 48 + n mod 10]"
  by (simp add: zfill_def dec_4)

lemma days_in_month_le: "days_in_month y m \<le> 31"
  by (simp add: days_in_month_def)

lemma strftime_iso_format:
  assumes "valid_date d" and "1000 \<le> year d"
  shows "iso_format (strftime d)"
proof -
  from assms have y: "1000 \<le> year d" "year d < 10000" and m: "month d < 100"
    by (simp_all add: valid_date_def)
  from assms have "day d \<le> 31"
    using days_in_month_le [of "year d" "month d"] by (simp add: valid_date_def)
  then have dd: "day d < 100" by simp
  have dig: "is_digit (48 + k mod 10)" for k
    by (simp add: is_digit_def)
  have "year d div 1000 < 10" using y by simp
  then have dig_y: "is_digit (48 + year d div 1000)" by (simp add: is_digit_def)
  have "month d div 10 < 10" "day d div 10 < 10" using m dd by simp_all
  then have dig_md: "is_digit (48 + month d div 10)" "is_digit (48 + day d div 10)"
    by (simp_all add: is_digit_def)
  show ?thesis
    by (simp add: strftime_def zfill4_dec [OF y] zfill2_dec [OF m] zfill2_dec [OF dd]
        iso_format_def dig dig_y dig_md)
qed

subsection \<open>Facts about grouping, sorting and counting\<close>

lemma set_sort_values_desc: "set (sort_values_desc xs) = set xs"
  by (simp add: sort_values_desc_def)

lemma mset_sort_values_desc: "mset (sort_values_desc xs) = mset xs"
  by (simp add: sort_values_desc_def)


text \<open>The sort of the model is stable: entries of equal value keep their order.\<close>

lemma sort_values_desc_stable:
  "filter (\<lambda>kv. snd kv = v) (sort_values_desc xs) = filter (\<lambda>kv. snd kv = v) xs"
proof -
  have "filter (\<lambda>kv. snd kv = v) (sort_key snd (rev xs)) = filter (\<lambda>kv. snd kv = v) (rev xs)"
    by (rule sort_key_stable)
  then show ?thesis
    by (simp add: sort_values_desc_def rev_filter [symmetric])
qed






lemma set_value_counts: "set (value_counts xs) = (\<lambda>v. (v, count_list xs v)) ` set xs"
  by (simp add: value_counts_def set_sort_values_desc first_seen_def)

lemma distinct_value_counts: "distinct (map fst (value_counts xs))"
proof -
  let ?l = "map (\<lambda>v. (v, count_list xs v)) (first_seen xs)"
  have "mset (map fst (value_counts xs)) = mset (map fst ?l)"
    unfolding value_counts_def by (simp only: mset_map mset_sort_values_desc)
  moreover have "distinct (map fst ?l)"
    by (simp add: comp_def first_seen_def)
  ultimately show ?thesis by (metis mset_eq_imp_distinct_iff)
qed

lemma map_of_value_counts:
  "map_of (value_counts xs) v = (if v \<in> set xs then Some (count_list xs v) else None)"
proof (cases "v \<in> set xs")
  case True
  then have "(v, count_list xs v) \<in> set (value_counts xs)"
    by (simp add: set_value_counts)
  with True show ?thesis
    by (simp add: map_of_eq_Some_iff [OF distinct_value_counts])
next
  case False
  then have "v \<notin> fst ` set (value_counts xs)"
    by (auto simp: set_value_counts)
  with False show ?thesis by (simp add: map_of_eq_None_iff)
qed

lemma labels_differ: "text_of ''Expired'' \<noteq> text_of ''Not Expired''"
  by (simp add: text_of_def)

lemma map_of_expiry_status_Expired:
  "map_of (map (\<lambda>(v, n). (if v then text_of ''Expired'' else text_of ''Not Expired'', n)) vc)
     (text_of ''Expired'') = map_of vc True"
  by (induction vc) (auto simp: labels_differ)

lemma map_of_expiry_status_Not_Expired:
  "map_of (map (\<lambda>(v, n). (if v then text_of ''Expired'' else text_of ''Not Expired'', n)) vc)
     (text_of ''Not Expired'') = map_of vc False"
  using labels_differ by (induction vc) auto

lemma bucket_Expired:
  "bucket (expiry_status today df) (text_of ''Expired'') = num_expired today df"
proof -
  let ?bs = "map (\<lambda>r. before (Expiry_Date r) today) df"
  have "bucket (expiry_status today df) (text_of ''Expired'') = count_list ?bs True"
    by (simp add: bucket_def expiry_status_def map_of_expiry_status_Expired map_of_value_counts
        count_list_0_iff del: set_map)
  also have "\<dots> = num_expired today df"
    by (simp add: count_list_eq_length_filter num_expired_def expired_items_def filter_map comp_def)
  finally show ?thesis .
qed

lemma bucket_Not_Expired:
  "bucket (expiry_status today df) (text_of ''Not Expired'') =
     length (filter (\<lambda>r. \<not> before (Expiry_Date r) today) df)"
proof -
  let ?bs = "map (\<lambda>r. before (Expiry_Date r) today) df"
  have "bucket (expiry_status today df) (text_of ''Not Expired'') = count_list ?bs False"
    by (simp add: bucket_def expiry_status_def map_of_expiry_status_Not_Expired map_of_value_counts
        count_list_0_iff del: set_map)
  also have "\<dots> = length (filter (\<lambda>r. \<not> before (Expiry_Date r) today) df)"
    by (simp add: count_list_eq_length_filter filter_map comp_def)
  finally show ?thesis .
qed

lemma not_before_split:
  "length (filter (\<lambda>r. \<not> before (Expiry_Date r) today) df) =
     length (filter (\<lambda>r. case Expiry_Date r of None \<Rightarrow> False | Some d \<Rightarrow> \<not> d < today) df)
     + length (filter (\<lambda>r. Expiry_Date r = None) df)"
  by (induction df) (auto simp: before_def split: option.splits)

lemmas frame_defs = dashboard_frame_def coerce_expiry_def clean_def replace_empty_def
  to_datetime_def is_digit_def digit_val_def valid_date_def year_def month_def day_def
  days_in_month_def is_leap_def text_of_def sample_row_def

section \<open>The add operation\<close>

text \<open>
  Claim C1. Adding a listing twice with the same provider fields should leave exactly one
  row of \<open>providers\<close> with that (Name, Contact, City). The script does not achieve
  this: \<open>INSERT OR IGNORE\<close> skips a row only on a violated constraint, and the table
  declares none on (Name, Contact, City). Submitting \<open>sample_form\<close> twice to an empty
  store leaves two provider rows with the same tuple.
\<close>

theorem providers_duplicated_by_second_add:
  "matching_providers
     (fst (add_food_form (fst (add_food_form (Available empty_db) sample_form)) sample_form))
     (provider_tuple sample_form) = 2"
proof -
  obtain d1 where d1: "fst (add_food_form (Available empty_db) sample_form) = Available d1"
    by (simp add: add_food_form_ok [OF sample_form_ok])
  have "matching_providers (Available empty_db) (provider_tuple sample_form) = 0"
    by (simp add: matching_providers_def empty_db_def)
  then have "matching_providers (Available d1) (provider_tuple sample_form) = 1"
    using add_food_form_provider_count [OF sample_form_ok, of empty_db] by (simp add: d1)
  then show ?thesis
    using add_food_form_provider_count [OF sample_form_ok, of d1] by (simp add: d1)
qed

text \<open>
  Claim C2. A submission with a quantity that is not positive, or with a required string
  that is empty after trimming, is rejected (the script shows its warning) and the store
  after the call is the store before it: both tables keep their rows.
\<close>

theorem add_food_form_invalid_no_mutation:
  assumes "quantity f \<le> 0 \<or> strip (food_id f) = [] \<or> strip (provider_id f) = [] \<or>
     strip (food_item f) = [] \<or> strip (location f) = [] \<or> strip (provider_name f) = [] \<or>
     strip (provider_contact f) = []"
  shows "add_food_form st f =
     (st, [St_warning (warning_sign @ text_of ''Please fill all required fields correctly.'')])"
proof -
  from assms have "\<not> inputs_ok f"
    by (auto simp: inputs_ok_def)
  then show ?thesis by (rule add_food_form_rejects)
qed

theorem add_food_form_invalid_no_mutation_witness:
  "quantity (sample_form\<lparr>quantity := 0\<rparr>) \<le> 0 \<and>
   add_food_form (Available empty_db) (sample_form\<lparr>quantity := 0\<rparr>) =
     (Available empty_db,
      [St_warning (warning_sign @ text_of ''Please fill all required fields correctly.'')]) \<and>
   strip (provider_name (sample_form\<lparr>provider_name := text_of ''   ''\<rparr>)) = [] \<and>
   add_food_form (Available empty_db) (sample_form\<lparr>provider_name := text_of ''   ''\<rparr>) =
     (Available empty_db,
      [St_warning (warning_sign @ text_of ''Please fill all required fields correctly.'')])"
proof -
  have q: "quantity (sample_form\<lparr>quantity := 0\<rparr>) \<le> 0" by simp
  have n: "strip (provider_name (sample_form\<lparr>provider_name := text_of ''   ''\<rparr>)) = []"
    by (simp add: strip_def text_of_def isspace_def)
  from q n
    add_food_form_invalid_no_mutation [of "sample_form\<lparr>quantity := 0\<rparr>" "Available empty_db"]
    add_food_form_invalid_no_mutation
      [of "sample_form\<lparr>provider_name := text_of ''   ''\<rparr>" "Available empty_db"]
  show ?thesis by blast
qed




text \<open>
  Claim C10. Every row the add operation stores carries trimmed strings: Food_ID,
  Provider_ID, Food_Item and Location of the listing, and Name, Contact and City of the
  provider, are the submitted texts without the white space at their ends, and are not
  empty; the stored Expiry_Date has the shape \<open>YYYY-MM-DD\<close>. The rows already stored
  are kept as they are. The date is one the date widget can produce (a valid date of a
  four-digit year).
\<close>

theorem stored_rows_trimmed:
  assumes "add_food_form (Available d) f = (Available d', out)"
    and "valid_date (expiry f)" and "1000 \<le> year (expiry f)"
  shows "take (length (food_listings d)) (food_listings d') = food_listings d \<and>
     take (length (providers d)) (providers d') = providers d \<and>
     list_all
       (\<lambda>r. Food_ID r = strip (food_id f) \<and> Provider_ID r = strip (provider_id f) \<and>
            Food_Item r = strip (food_item f) \<and> Location r = strip (location f) \<and>
            Expiry_Date r = strftime (expiry f) \<and>
            trimmed (Food_ID r) \<and> trimmed (Provider_ID r) \<and> trimmed (Food_Item r) \<and>
            trimmed (Location r) \<and> iso_format (Expiry_Date r))
       (drop (length (food_listings d)) (food_listings d')) \<and>
     list_all
       (\<lambda>p. Name p = strip (provider_name f) \<and> Contact p = strip (provider_contact f) \<and>
            City p = strip (location f) \<and>
            trimmed (Name p) \<and> trimmed (Contact p) \<and> trimmed (City p))
       (drop (length (providers d)) (providers d'))"
proof (cases "inputs_ok f")
  case True
  then have ne: "strip (food_id f) \<noteq> []" "strip (provider_id f) \<noteq> []"
      "strip (food_item f) \<noteq> []" "strip (location f) \<noteq> []"
      "strip (provider_name f) \<noteq> []" "strip (provider_contact f) \<noteq> []"
    by (simp_all add: inputs_ok_def)
  from assms(1) have d': "d' =
      \<lparr>food_listings = food_listings d @
         [\<lparr>food_listings_id = next_rowid (map food_listings_id (food_listings d)),
           Food_ID = strip (food_id f), Provider_ID = strip (provider_id f),
           Food_Item = strip (food_item f), Quantity = quantity f,
           Expiry_Date = strftime (expiry f), Location = strip (location f),
           Meal_Type = meal_str (meal_type f)\<rparr>],
       providers = providers d @
         [\<lparr>providers_id = next_rowid (map providers_id (providers d)),
           Name = strip (provider_name f), Contact = strip (provider_contact f),
           City = strip (location f)\<rparr>]\<rparr>"
    by (simp add: add_food_form_ok [OF True])
  show ?thesis
    by (simp add: d' trimmed_strip ne strftime_iso_format [OF assms(2,3)])
next
  case False
  with assms(1) have "d' = d"
    by (simp add: add_food_form_rejects)
  then show ?thesis by simp
qed

theorem stored_rows_trimmed_witness:
  "valid_date (expiry sample_form) \<and> 1000 \<le> year (expiry sample_form) \<and>
   (case fst (add_food_form (Available empty_db) sample_form) of
      Available d' \<Rightarrow>
        length (food_listings d') = 1 \<and> length (providers d') = 1 \<and>
        list_all (\<lambda>r. trimmed (Food_Item r) \<and> iso_format (Expiry_Date r)) (food_listings d') \<and>
        list_all (\<lambda>p. trimmed (Name p)) (providers d')
    | Unavailable e \<Rightarrow> False)"
proof -
  have v: "valid_date (expiry sample_form)"
    by (simp add: sample_form_def valid_date_def year_def month_def day_def days_in_month_def)
  have y: "1000 \<le> year (expiry sample_form)"
    by (simp add: sample_form_def year_def)
  obtain d' out where
    eq: "add_food_form (Available empty_db) sample_form = (Available d', out)"
    and len: "length (food_listings d') = 1" "length (providers d') = 1"
    by (simp add: add_food_form_ok [OF sample_form_ok] empty_db_def)
  from stored_rows_trimmed [OF eq v y]
  have "list_all (\<lambda>r. trimmed (Food_Item r) \<and> iso_format (Expiry_Date r)) (food_listings d')"
    and "list_all (\<lambda>p. trimmed (Name p)) (providers d')"
    by (auto simp: empty_db_def list_all_iff)
  with v y len show ?thesis by (simp add: eq)
qed

section \<open>Reading from the store\<close>

text \<open>
  Claim C3. The claim is that a storage fault in either read operation is reported and
  stops the screen, and that the provider lookup never turns a fault into an empty
  result. The listing load does stop. The provider lookup reports the fault and then
  returns an empty frame, the same value it returns when no provider matches, and the
  caller goes on to show "No providers found in this city."
\<close>

theorem providers_fault_becomes_empty_frame:
  "snd (load_providers_by_city (Unavailable (text_of ''database is locked'')) (text_of ''Pune''))
     = Returned [] \<and>
   snd (load_providers_by_city (Available empty_db) (text_of ''Pune'')) = Returned [] \<and>
   show_contacts (Unavailable (text_of ''database is locked'')) (text_of ''Pune'') =
     ([St_error (cross_mark @ text_of ''Error fetching contacts.''),
       St_code (text_of ''database is locked''),
       St_warning (warning_sign @ text_of ''No providers found in this city.'')],
      Returned ())"
  by (simp add: load_providers_by_city_def show_contacts_def empty_db_def)

theorem read_faults_reported:
  "load_food_listings (Unavailable e) =
     ([St_error (cross_mark @ text_of ''Failed to load food listings.''), St_code e], Stopped) \<and>
   load_providers_by_city (Unavailable e) city =
     ([St_error (cross_mark @ text_of ''Error fetching contacts.''), St_code e], Returned []) \<and>
   snd (show_contacts (Unavailable e) city) = Returned ()"
  by (simp add: load_food_listings_def load_providers_by_city_def show_contacts_def)

section \<open>The dashboard\<close>




text \<open>
  Claim C5. The claim is that the two buckets of the expiry chart leave out the rows with
  an unparsable date. They do not: the chart uses the comparison of the expired count,
  \<open>Expiry_Date < today\<close>, which is False for NaT, so a row with an unparsable date
  is counted under "Not Expired".
\<close>

theorem unparsable_counted_as_not_expired:
  "map Expiry_Date (dashboard_frame [sample_row (text_of ''Apple'') 1 (text_of ''unknown'')])
     = [None] \<and>
   expiry_status (2024, 1, 1)
     (dashboard_frame [sample_row (text_of ''Apple'') 1 (text_of ''unknown'')])
     = [(text_of ''Not Expired'', 1)]"
  by (simp add: frame_defs expiry_status_def value_counts_def first_seen_def
      sort_values_desc_def before_def)

text \<open>
  What holds instead: the bucket "Expired" is the expired count; the bucket "Not Expired"
  holds every other row, those with a parsable date that is not before today and those
  with an unparsable date; together the buckets count every row.
\<close>

theorem expiry_status_buckets:
  "bucket (expiry_status today df) (text_of ''Expired'') = num_expired today df \<and>
   bucket (expiry_status today df) (text_of ''Not Expired'') =
     length (filter (\<lambda>r. case Expiry_Date r of None \<Rightarrow> False | Some d \<Rightarrow> \<not> d < today) df)
     + length (filter (\<lambda>r. Expiry_Date r = None) df) \<and>
   bucket (expiry_status today df) (text_of ''Expired'')
     + bucket (expiry_status today df) (text_of ''Not Expired'') = total_listings df"
proof -
  have "num_expired today df + length (filter (\<lambda>r. \<not> before (Expiry_Date r) today) df)
      = total_listings df"
    by (simp add: num_expired_def expired_items_def total_listings_def sum_length_filter_compl)
  then show ?thesis
    by (simp add: bucket_Expired bucket_Not_Expired not_before_split)
qed

text \<open>
  Claim C7. For every frame and every reference date, the expired rows, the rows with a
  parsable date that is not before the reference date, and the rows with an unparsable
  date together are all the rows: the three counts add up to the total.
\<close>

theorem expiry_partition:
  "num_expired today df
   + length (filter (\<lambda>r. case Expiry_Date r of None \<Rightarrow> False | Some d \<Rightarrow> \<not> d < today) df)
   + length (filter (\<lambda>r. Expiry_Date r = None) df)
   = total_listings df"
  unfolding num_expired_def expired_items_def total_listings_def
  by (induction df) (auto simp: before_def split: option.splits)


text \<open>
  Claim C9. The worked example: for the listings (Apple, 10, 2099-01-01),
  (Apple, 5, 2099-02-01) and (Bread, 3, 2020-01-01), whatever their other columns, and the
  reference date 2024-01-01, one listing is expired, the total quantity is 18 and the top
  food item is Apple with 15.
\<close>

theorem worked_example:
  "(let df = dashboard_frame
       [\<lparr>food_listings_id = i1, Food_ID = f1, Provider_ID = p1, Food_Item = text_of ''Apple'',
         Quantity = 10, Expiry_Date = text_of ''2099-01-01'', Location = l1, Meal_Type = m1\<rparr>,
        \<lparr>food_listings_id = i2, Food_ID = f2, Provider_ID = p2, Food_Item = text_of ''Apple'',
         Quantity = 5, Expiry_Date = text_of ''2099-02-01'', Location = l2, Meal_Type = m2\<rparr>,
        \<lparr>food_listings_id = i3, Food_ID = f3, Provider_ID = p3, Food_Item = text_of ''Bread'',
         Quantity = 3, Expiry_Date = text_of ''2020-01-01'', Location = l3, Meal_Type = m3\<rparr>]
    in num_expired (2024, 1, 1) df = 1 \<and> total_quantity df = 18 \<and>
       top_food_items 1 df = [(text_of ''Apple'', 15)])"
  by (simp add: frame_defs Let_def num_expired_def expired_items_def before_def
      total_quantity_def top_food_items_def head_def sort_values_desc_def groupby_sum_def)

end
